theory Spec2Isabelle
  imports Complex_Main "HOL-Library.Word"
begin

section \<open>JavaScript values\<close>

text \<open>
  The values that \<open>JSON.parse\<close> and \<open>Response.json\<close> hand to the page, plus
  \<open>undefined\<close> for a property that is not there. A number is a finite double, carried
  as the real it denotes: the page only tests numbers for truthiness (zero or not) and
  stores them. An object is the list of its own properties; the first entry for a key is
  the one a lookup finds.
\<close>

datatype jsval =
    JUndefined
  | JNull
  | JBool bool
  | JNum real
  | JStr string
  | JArr "jsval list"
  | JObj "(string \<times> jsval) list"

datatype js_error = SyntaxError | TypeError | HttpError | NetworkFailure

text \<open>\<open>!!v\<close>: the values that \<open>if (!v)\<close> and \<open>||\<close> treat as false.\<close>

fun truthy :: "jsval \<Rightarrow> bool" where
  "truthy JUndefined = False"
| "truthy JNull = False"
| "truthy (JBool b) = b"
| "truthy (JNum x) = (x \<noteq> 0)"
| "truthy (JStr s) = (s \<noteq> [])"
| "truthy (JArr xs) = True"
| "truthy (JObj kvs) = True"

text \<open>\<open>typeof v === "object"\<close>: objects, arrays and \<open>null\<close>.\<close>

fun typeof_object :: "jsval \<Rightarrow> bool" where
  "typeof_object JNull = True"
| "typeof_object (JArr xs) = True"
| "typeof_object (JObj kvs) = True"
| "typeof_object v = False"

text \<open>
  \<open>v.k\<close> for the property names the page reads (\<open>transcript\<close>, \<open>text\<close>,
  \<open>translated_text\<close>; none of them is a built-in property of a string, number, boolean
  or array): a TypeError on \<open>null\<close> and \<open>undefined\<close>, the own property of an object,
  \<open>undefined\<close> otherwise.
\<close>

fun get_prop :: "jsval \<Rightarrow> string \<Rightarrow> js_error + jsval" where
  "get_prop JUndefined k = Inl TypeError"
| "get_prop JNull k = Inl TypeError"
| "get_prop (JObj kvs) k = (case map_of kvs k of Some v \<Rightarrow> Inr v | None \<Rightarrow> Inr JUndefined)"
| "get_prop v k = Inr JUndefined"

text \<open>\<open>v?.k\<close>: \<open>undefined\<close> instead of the TypeError.\<close>

fun opt_chain :: "jsval \<Rightarrow> string \<Rightarrow> js_error + jsval" where
  "opt_chain JUndefined k = Inr JUndefined"
| "opt_chain JNull k = Inr JUndefined"
| "opt_chain v k = get_prop v k"

section \<open>Columns\<close>

record column =
  col_id :: string
  label :: string
  lang :: string
  lines :: "jsval list"
  isOriginal :: bool

text \<open>The argument \<open>over\<close> of \<open>newCol\<close>: the fields it overrides.\<close>

record col_over =
  over_id :: "string option"
  over_label :: "string option"
  over_lang :: "string option"
  over_lines :: "jsval list option"
  over_isOriginal :: "bool option"

definition no_over :: col_over where
  "no_over = \<lparr>over_id = None, over_label = None, over_lang = None, over_lines = None,
     over_isOriginal = None\<rparr>"

text \<open>\<open>Date.now().toString()\<close>: the decimal digits of the millisecond count.\<close>

fun toString :: "nat \<Rightarrow> string" where
  "toString n =
     (if n < 10 then [''0123456789'' ! n]
      else toString (n div 10) @ [''0123456789'' ! (n mod 10)])"

declare toString.simps [simp del]

text \<open>\<open>newCol\<close>, with the value of \<open>Date.now()\<close> as \<open>now\<close>. A column built without
  \<open>isOriginal\<close> has the flag \<open>undefined\<close>, which every test of the page reads as false.\<close>

definition newCol :: "nat \<Rightarrow> col_over \<Rightarrow> column" where
  "newCol now over =
     \<lparr>col_id = (case over_id over of Some v \<Rightarrow> v | None \<Rightarrow> toString now),
      label = (case over_label over of Some v \<Rightarrow> v | None \<Rightarrow> ''Transcript''),
      lang = (case over_lang over of Some v \<Rightarrow> v | None \<Rightarrow> ''en''),
      lines = (case over_lines over of Some v \<Rightarrow> v | None \<Rightarrow> []),
      isOriginal = (case over_isOriginal over of Some v \<Rightarrow> v | None \<Rightarrow> False)\<rparr>"

definition initial_columns :: "nat \<Rightarrow> column list" where
  "initial_columns now =
     [newCol now \<lparr>over_id = Some ''original'', over_label = Some ''Original'',
        over_lang = Some ''auto'', over_lines = None, over_isOriginal = Some True\<rparr>]"

subsection \<open>The updaters handed to \<open>setColumns\<close>\<close>

definition appendOriginal :: "jsval \<Rightarrow> column list \<Rightarrow> column list" where
  "appendOriginal raw p = map (\<lambda>c. if isOriginal c then c\<lparr>lines := lines c @ [raw]\<rparr> else c) p"

definition appendTranslated :: "string \<Rightarrow> jsval \<Rightarrow> column list \<Rightarrow> column list" where
  "appendTranslated cid translated p =
     map (\<lambda>c. if col_id c = cid then c\<lparr>lines := lines c @ [translated]\<rparr> else c) p"

definition clearOutputs :: "column list \<Rightarrow> column list" where
  "clearOutputs p = map (\<lambda>c. c\<lparr>lines := []\<rparr>) p"

text \<open>\<open>addColumn\<close> tests the rendered list \<open>columns\<close> and updates the current list \<open>p\<close>;
  the result is paired with the alert it raises, if any.\<close>

definition addColumn :: "nat \<Rightarrow> column list \<Rightarrow> column list \<Rightarrow> column list \<times> string option" where
  "addColumn now columns p =
     (if length (filter (\<lambda>c. \<not> isOriginal c) columns) \<ge> 2 then (p, Some ''Max 2 targets'')
      else (p @ [newCol now no_over], None))"

definition removeColumn :: "string \<Rightarrow> column list \<Rightarrow> column list" where
  "removeColumn cid p = filter (\<lambda>c. col_id c \<noteq> cid) p"

definition changeLang :: "string \<Rightarrow> string \<Rightarrow> column list \<Rightarrow> column list" where
  "changeLang cid l p = map (\<lambda>c. if col_id c = cid then c\<lparr>lang := l, lines := []\<rparr> else c) p"

definition changeSrcLang_columns :: "string \<Rightarrow> column list \<Rightarrow> column list" where
  "changeSrcLang_columns l p = map (\<lambda>c. if isOriginal c then c\<lparr>lang := l\<rparr> else c) p"

text \<open>\<open>lines.filter((_, i) => i !== lineIndex)\<close>.\<close>

definition drop_index :: "int \<Rightarrow> 'a list \<Rightarrow> 'a list" where
  "drop_index k xs = map snd (filter (\<lambda>(i, x). int i \<noteq> k) (enumerate 0 xs))"

definition deleteLine :: "string \<Rightarrow> int \<Rightarrow> column list \<Rightarrow> column list" where
  "deleteLine columnId lineIndex p =
     map (\<lambda>c. if col_id c = columnId then c\<lparr>lines := drop_index lineIndex (lines c)\<rparr> else c) p"

section \<open>Translation call\<close>

text \<open>What \<open>fetch\<close> and \<open>r.json()\<close> do is the network's choice: the fetch rejects, or it
  resolves with a status (\<open>r.ok\<close>) and a body that parses as JSON or does not.\<close>

datatype fetch_outcome = FetchRejected | Response bool "jsval option"

definition mapLangForServer :: "string \<Rightarrow> string" where
  "mapLangForServer region = (if take 2 region = ''zh'' then ''zh'' else region)"

text \<open>The body of the \<open>try\<close> block of \<open>translateText\<close>.\<close>

definition translate_try :: "jsval \<Rightarrow> fetch_outcome \<Rightarrow> js_error + jsval" where
  "translate_try text out =
     (case out of
        FetchRejected \<Rightarrow> Inl NetworkFailure
      | Response ok body \<Rightarrow>
          if \<not> ok then Inl HttpError
          else (case body of
                  None \<Rightarrow> Inl SyntaxError
                | Some d \<Rightarrow>
                    (case get_prop d ''translated_text'' of
                       Inl e \<Rightarrow> Inl e
                     | Inr a \<Rightarrow>
                         if truthy a then Inr a
                         else (case get_prop d ''text'' of
                                 Inl e \<Rightarrow> Inl e
                               | Inr b \<Rightarrow> if truthy b then Inr b else Inr text))))"

text \<open>\<open>translateText\<close>: \<open>Inr v\<close> is the promise resolved with \<open>v\<close>, \<open>Inl e\<close> the promise
  rejected. The request carries \<open>text\<close> and the two mapped language tags; the outcome of
  the call is \<open>out\<close>.\<close>

definition translateText :: "jsval \<Rightarrow> string \<Rightarrow> string \<Rightarrow> fetch_outcome \<Rightarrow> js_error + jsval" where
  "translateText text src tgt out =
     (case translate_try text out of Inl e \<Rightarrow> Inr text | Inr v \<Rightarrow> Inr v)"

section \<open>The page\<close>

text \<open>A translation call that has been issued: the column it was issued for (as the
  column was then), the fragment and the source language of the socket.\<close>

record pending =
  pcol :: column
  praw :: jsval
  psrc :: string

type_synonym byte = "8 word"

datatype effect =
    WsNew nat string
  | WsClose nat
  | WsSend nat "byte list"
  | MicAcquired nat
  | ProcDisconnect nat
  | CtxClose nat
  | TracksStop nat
  | Alert string
  | ConsoleError js_error
  | FetchTranslate jsval string string
  | SetTimeoutStartLive nat bool "column list"

text \<open>
  The state of \<open>LiveTranscriptionPage\<close> that the live session uses: the React state
  (\<open>columns\<close>, \<open>isLive\<close>, \<open>wsConnected\<close>, \<open>isProcessing\<close>), the refs (\<open>wsRef\<close>,
  \<open>streamRef\<close>, each holding a handle or \<open>null\<close>), the \<open>readyState\<close> of every socket
  created so far (\<open>nextWs\<close> counts them and is the handle of the next one), the
  translation calls issued, and the calls made on the outside world, in order.
\<close>

record page =
  columns :: "column list"
  isLive :: bool
  wsConnected :: bool
  isProcessing :: bool
  wsRef :: "nat option"
  streamRef :: "nat option"
  readyState :: "nat \<Rightarrow> nat"
  nextWs :: nat
  requests :: "pending list"
  effects :: "effect list"

definition initial_page :: "nat \<Rightarrow> page" where
  "initial_page now =
     \<lparr>columns = initial_columns now, isLive = False, wsConnected = False, isProcessing = False,
      wsRef = None, streamRef = None, readyState = (\<lambda>k. 0), nextWs = 0, requests = [],
      effects = []\<rparr>"

subsection \<open>Socket\<close>

definition closeSocket :: "page \<Rightarrow> page" where
  "closeSocket st =
     (case wsRef st of
        Some k \<Rightarrow>
          st\<lparr>readyState := (readyState st)(k := (if readyState st k = 3 then 3 else 2)),
             effects := effects st @ [WsClose k], wsRef := None\<rparr>
      | None \<Rightarrow> st)\<lparr>wsConnected := False\<rparr>"

text \<open>\<open>stopLive\<close> is memoised on \<open>isLive\<close>: \<open>live\<close> is the value of \<open>isLive\<close> in the
  render whose \<open>stopLive\<close> is called.\<close>

definition stopLive :: "bool \<Rightarrow> page \<Rightarrow> page" where
  "stopLive live st =
     (if \<not> live then st
      else (let st1 = closeSocket (st\<lparr>isLive := False\<rparr>)
            in case streamRef st1 of
                 Some s \<Rightarrow>
                   st1\<lparr>effects := effects st1 @ [ProcDisconnect s, CtxClose s, TracksStop s],
                       streamRef := None\<rparr>
               | None \<Rightarrow> st1))"

definition openSocket :: "string \<Rightarrow> page \<Rightarrow> page" where
  "openSocket srcLang st =
     (let st1 = closeSocket st; k = nextWs st1
      in st1\<lparr>readyState := (readyState st1)(k := 0), nextWs := Suc k,
             effects := effects st1 @ [WsNew k (mapLangForServer srcLang)],
             wsRef := Some k\<rparr>)"

definition ws_onopen :: "nat \<Rightarrow> page \<Rightarrow> page" where
  "ws_onopen k st = st\<lparr>readyState := (readyState st)(k := 1), wsConnected := True\<rparr>"

definition ws_onclose :: "nat \<Rightarrow> page \<Rightarrow> page" where
  "ws_onclose k st = st\<lparr>readyState := (readyState st)(k := 3), wsConnected := False\<rparr>"

definition ws_onerror :: "bool \<Rightarrow> page \<Rightarrow> page" where
  "ws_onerror live st = stopLive live (st\<lparr>wsConnected := False\<rparr>)"

subsection \<open>Inbound message and fan-out\<close>

text \<open>The value \<open>raw\<close> of \<open>ws.onmessage\<close>; \<open>parsed\<close> is what \<open>JSON.parse(data)\<close> returns,
  \<open>None\<close> when it throws.\<close>

definition extract_raw :: "jsval option \<Rightarrow> js_error + jsval" where
  "extract_raw parsed =
     (case parsed of
        None \<Rightarrow> Inl SyntaxError
      | Some msg \<Rightarrow>
          (case get_prop msg ''transcript'' of
             Inl e \<Rightarrow> Inl e
           | Inr transcript \<Rightarrow>
               if typeof_object transcript then opt_chain transcript ''text''
               else Inr transcript))"

text \<open>\<open>ws.onmessage\<close> of a socket opened for \<open>srcLang\<close>; \<open>colsRef\<close> is \<open>colsRef.current\<close>,
  the column list of the last render. Each target column of \<open>colsRef\<close> gets one translation
  call, left in \<open>requests\<close> until it settles.\<close>

definition onmessage :: "string \<Rightarrow> column list \<Rightarrow> jsval option \<Rightarrow> page \<Rightarrow> page" where
  "onmessage srcLang colsRef parsed st =
     (case extract_raw parsed of
        Inl e \<Rightarrow> st\<lparr>effects := effects st @ [ConsoleError e]\<rparr>
      | Inr raw \<Rightarrow>
          if \<not> truthy raw then st
          else (let targets = filter (\<lambda>col. \<not> isOriginal col) colsRef
                in st\<lparr>columns := appendOriginal raw (columns st),
                      requests := requests st @
                        map (\<lambda>col. \<lparr>pcol = col, praw = raw, psrc = srcLang\<rparr>) targets,
                      effects := effects st @
                        map (\<lambda>col. FetchTranslate raw (mapLangForServer srcLang)
                                     (mapLangForServer (lang col))) targets\<rparr>))"

text \<open>The continuation of one translation call: when the call settles with \<open>out\<close>, the
  result of \<open>translateText\<close> is appended to the columns that carry the id of the call's
  column.\<close>

definition settle :: "pending \<Rightarrow> fetch_outcome \<Rightarrow> page \<Rightarrow> page" where
  "settle t out st =
     (case translateText (praw t) (psrc t) (lang (pcol t)) out of
        Inl e \<Rightarrow> st
      | Inr translated \<Rightarrow>
          st\<lparr>columns := appendTranslated (col_id (pcol t)) translated (columns st)\<rparr>)"

fun settle_all :: "(pending \<times> fetch_outcome) list \<Rightarrow> page \<Rightarrow> page" where
  "settle_all [] st = st"
| "settle_all ((t, out) # rest) st = settle_all rest (settle t out st)"

subsection \<open>Microphone\<close>

text \<open>\<open>pcm.slice(b, e)\<close> of a \<open>Uint8Array\<close>, for \<open>0 \<le> b\<close>: both ends are clamped to the
  length.\<close>

definition slice :: "'a list \<Rightarrow> nat \<Rightarrow> nat \<Rightarrow> 'a list" where
  "slice xs b e = take (e - b) (drop b xs)"

definition send_if_ready :: "byte list \<Rightarrow> page \<Rightarrow> page" where
  "send_if_ready frame st =
     (case wsRef st of
        Some k \<Rightarrow> if readyState st k = 1 then st\<lparr>effects := effects st @ [WsSend k frame]\<rparr> else st
      | None \<Rightarrow> st)"

text \<open>The \<open>for\<close> loop of \<open>proc.onaudioprocess\<close>, from offset \<open>i\<close>.\<close>

function audio_loop :: "nat \<Rightarrow> byte list \<Rightarrow> page \<Rightarrow> page" where
  "audio_loop i pcm st =
     (if i < length pcm then audio_loop (i + 320) pcm (send_if_ready (slice pcm i (i + 320)) st)
      else st)"
  by pat_completeness auto
termination
  by (relation "measure (\<lambda>(i, pcm, st). length pcm - i)") auto

declare audio_loop.simps [simp del]

text \<open>\<open>proc.onaudioprocess\<close>; \<open>pcm\<close> is the byte view of the encoded block (the encoder,
  \<open>utils/audioUtils\<close>, is taken as given).\<close>

definition onaudioprocess :: "byte list \<Rightarrow> page \<Rightarrow> page" where
  "onaudioprocess pcm st = audio_loop 0 pcm st"

text \<open>The frames a list of effects sends, in order.\<close>

fun sent_frames :: "effect list \<Rightarrow> byte list list" where
  "sent_frames [] = []"
| "sent_frames (WsSend k frame # es) = frame # sent_frames es"
| "sent_frames (e # es) = sent_frames es"

text \<open>What \<open>attachMic\<close> does: \<open>getUserMedia\<close> rejects; or it yields a stream and building
  the audio graph throws; or the graph is built and \<open>streamRef\<close> is set. The string is the
  \<open>message\<close> of the error.\<close>

datatype mic_outcome = GetUserMediaFailed string | AudioGraphFailed nat string | MicOk nat

definition attachMic :: "mic_outcome \<Rightarrow> page \<Rightarrow> page \<times> string option" where
  "attachMic out st =
     (case out of
        GetUserMediaFailed m \<Rightarrow> (st, Some m)
      | AudioGraphFailed s m \<Rightarrow> (st\<lparr>effects := effects st @ [MicAcquired s]\<rparr>, Some m)
      | MicOk s \<Rightarrow> (st\<lparr>effects := effects st @ [MicAcquired s], streamRef := Some s\<rparr>, None))"

text \<open>\<open>startLive\<close> up to its \<open>await\<close>, and from the \<open>await\<close> on. \<open>startLive\<close> is
  created anew by every render and reads \<open>isLive\<close> and \<open>columns\<close> from that render:
  \<open>live\<close> and \<open>cols\<close> are the values in the render whose \<open>startLive\<close> is called (the
  current ones for the Start button, those of an earlier render for a \<open>startLive\<close> kept
  by a timer).\<close>

definition startLive_begin :: "column list \<Rightarrow> page \<Rightarrow> page" where
  "startLive_begin cols st =
     (let srcLang = (case find isOriginal cols of
                       Some c \<Rightarrow> if lang c = [] then ''auto'' else lang c
                     | None \<Rightarrow> ''auto'')
      in openSocket srcLang (st\<lparr>isProcessing := True\<rparr>))"

definition startLive_resume :: "mic_outcome \<Rightarrow> page \<Rightarrow> page" where
  "startLive_resume out st =
     (case attachMic out st of
        (st1, None) \<Rightarrow> st1\<lparr>isLive := True\<rparr>
      | (st1, Some m) \<Rightarrow>
          closeSocket (st1\<lparr>effects := effects st1 @ [Alert (''Microphone error: '' @ m)]\<rparr>))
     \<lparr>isProcessing := False\<rparr>"

definition startLive :: "bool \<Rightarrow> column list \<Rightarrow> mic_outcome \<Rightarrow> page \<Rightarrow> page" where
  "startLive live cols out st =
     (if live then st else startLive_resume out (startLive_begin cols st))"

subsection \<open>Column actions of the page\<close>

text \<open>\<open>changeSrcLang\<close>, called from the current render: it stops with that render's
  \<open>stopLive\<close> and hands that render's \<open>startLive\<close> to a timer of 200 ms. The timer entry
  records what that \<open>startLive\<close> will read: \<open>isLive\<close> and \<open>columns\<close> as they are before
  this call.\<close>

definition changeSrcLang :: "string \<Rightarrow> page \<Rightarrow> page" where
  "changeSrcLang l st =
     (let st1 = stopLive (isLive st) (st\<lparr>columns := changeSrcLang_columns l (columns st)\<rparr>)
      in st1\<lparr>effects := effects st1 @ [SetTimeoutStartLive 200 (isLive st) (columns st)]\<rparr>)"

text \<open>A timer entry fires: the \<open>startLive\<close> it holds runs with what it read when it was
  created.\<close>

fun fire_timer :: "effect \<Rightarrow> mic_outcome \<Rightarrow> page \<Rightarrow> page" where
  "fire_timer (SetTimeoutStartLive ms live cols) out st = startLive live cols out st"
| "fire_timer e out st = st"

datatype store_op =
    AddColumn nat
  | RemoveColumn string
  | ChangeLang string string
  | ChangeSrcLang string
  | ClearOutputs
  | AppendOriginal jsval
  | AppendTranslated string jsval
  | DeleteLine string int

text \<open>Each operation is run from the render that shows the current list: \<open>addColumn\<close>
  tests the list it updates.\<close>

fun apply_op :: "store_op \<Rightarrow> column list \<Rightarrow> column list" where
  "apply_op (AddColumn now) p = fst (addColumn now p p)"
| "apply_op (RemoveColumn cid) p = removeColumn cid p"
| "apply_op (ChangeLang cid l) p = changeLang cid l p"
| "apply_op (ChangeSrcLang l) p = changeSrcLang_columns l p"
| "apply_op ClearOutputs p = clearOutputs p"
| "apply_op (AppendOriginal raw) p = appendOriginal raw p"
| "apply_op (AppendTranslated cid v) p = appendTranslated cid v p"
| "apply_op (DeleteLine cid i) p = deleteLine cid i p"

fun run_ops :: "store_op list \<Rightarrow> column list \<Rightarrow> column list" where
  "run_ops [] p = p"
| "run_ops (op # ops) p = run_ops ops (apply_op op p)"

subsection \<open>Scenarios\<close>

text \<open>The page after one target column has been added at millisecond 1730000000000.\<close>

definition two_columns :: page where
  "two_columns =
     (initial_page 0)\<lparr>columns :=
        fst (addColumn 1730000000000 (initial_columns 0) (initial_columns 0))\<rparr>"

definition transcript_msg :: "string \<Rightarrow> jsval option" where
  "transcript_msg s = Some (JObj [(''transcript'', JStr s)])"

definition translated_reply :: "string \<Rightarrow> fetch_outcome" where
  "translated_reply s = Response True (Some (JObj [(''translated_text'', JStr s)]))"

text \<open>Three fragments arrive, each after the render that follows the one before.\<close>

definition three_fragments :: page where
  "three_fragments =
     (let s1 = onmessage ''auto'' (columns two_columns) (transcript_msg ''a'') two_columns;
          s2 = onmessage ''auto'' (columns s1) (transcript_msg ''b'') s1
      in onmessage ''auto'' (columns s2) (transcript_msg ''c'') s2)"

text \<open>A live page: started from the first render, microphone attached, socket open.\<close>

definition live_page :: page where
  "live_page =
     ws_onopen 0 (startLive False (initial_columns 0) (MicOk 0) (initial_page 0))"

text \<open>On a page that is not live the source language is changed to \<open>fr\<close> and then to
  \<open>ja\<close>: two timers are pending. The first fires, the microphone is granted and the
  socket opens.\<close>

definition language_changed_twice :: page where
  "language_changed_twice = changeSrcLang ''ja'' (changeSrcLang ''fr'' (initial_page 0))"

definition first_timer_fired :: page where
  "first_timer_fired =
     ws_onopen 0 (fire_timer (effects language_changed_twice ! 0) (MicOk 0)
       language_changed_twice)"

text \<open>The source column is the only flagged one and carries the id \<open>original\<close>.\<close>

definition one_source :: "column list \<Rightarrow> bool" where
  "one_source p = (map col_id (filter isOriginal p) = [''original''])"

section \<open>Transcript store\<close>

subsection \<open>Counting sources and targets\<close>

lemma targets_map:
  "(\<And>c. isOriginal (f c) = isOriginal c) \<Longrightarrow>
   length (filter (\<lambda>c. \<not> isOriginal c) (map f p)) = length (filter (\<lambda>c. \<not> isOriginal c) p)"
  by (induction p) auto

lemma targets_apply_op:
  assumes "length (filter (\<lambda>c. \<not> isOriginal c) p) \<le> 2"
  shows "length (filter (\<lambda>c. \<not> isOriginal c) (apply_op op p)) \<le> 2"
proof (cases op)
  case (AddColumn now)
  with assms show ?thesis
    by (auto simp: addColumn_def newCol_def no_over_def)
next
  case (RemoveColumn cid)
  have "length (filter (\<lambda>c. \<not> isOriginal c) (filter (\<lambda>c. col_id c \<noteq> cid) p))
        \<le> length (filter (\<lambda>c. \<not> isOriginal c) p)"
    by (induction p) auto
  with assms RemoveColumn show ?thesis by (simp add: removeColumn_def)
qed (use assms in \<open>simp_all add: targets_map changeLang_def changeSrcLang_columns_def
      clearOutputs_def appendOriginal_def appendTranslated_def deleteLine_def
      del: filter_map length_filter_map\<close>)

lemma targets_run_ops:
  "length (filter (\<lambda>c. \<not> isOriginal c) p) \<le> 2 \<Longrightarrow>
   length (filter (\<lambda>c. \<not> isOriginal c) (run_ops ops p)) \<le> 2"
  by (induction ops arbitrary: p) (simp_all add: targets_apply_op)

lemma one_source_map:
  assumes "\<And>c. isOriginal (f c) = isOriginal c" and "\<And>c. col_id (f c) = col_id c"
    and "one_source p"
  shows "one_source (map f p)"
proof -
  have "filter isOriginal (map f p) = map f (filter isOriginal p)"
    using assms(1) by (induction p) auto
  with assms(2,3) show ?thesis by (simp add: one_source_def comp_def)
qed

lemma one_source_apply_op:
  assumes "one_source p" and "op \<noteq> RemoveColumn ''original''"
  shows "one_source (apply_op op p)"
proof (cases op)
  case (AddColumn now)
  with assms(1) show ?thesis
    by (auto simp: one_source_def addColumn_def newCol_def no_over_def)
next
  case (RemoveColumn cid)
  with assms(2) have ne: "cid \<noteq> ''original''" by simp
  have swap: "filter isOriginal (filter (\<lambda>c. col_id c \<noteq> cid) p)
        = filter (\<lambda>c. col_id c \<noteq> cid) (filter isOriginal p)"
    by (induction p) auto
  from assms(1) obtain c where c: "filter isOriginal p = [c]" "col_id c = ''original''"
    by (auto simp: one_source_def)
  with ne swap RemoveColumn show ?thesis
    by (simp add: one_source_def removeColumn_def)
next
  case (ChangeLang cid l)
  with assms(1) show ?thesis by (simp add: changeLang_def one_source_map)
next
  case (ChangeSrcLang l)
  with assms(1) show ?thesis by (simp add: changeSrcLang_columns_def one_source_map)
next
  case ClearOutputs
  with assms(1) show ?thesis by (simp add: clearOutputs_def one_source_map)
next
  case (AppendOriginal raw)
  with assms(1) show ?thesis by (simp add: appendOriginal_def one_source_map)
next
  case (AppendTranslated cid v)
  with assms(1) show ?thesis by (simp add: appendTranslated_def one_source_map)
next
  case (DeleteLine cid i)
  with assms(1) show ?thesis by (simp add: deleteLine_def one_source_map)
qed

lemma one_source_run_ops:
  "one_source p \<Longrightarrow> \<forall>op\<in>set ops. op \<noteq> RemoveColumn ''original'' \<Longrightarrow>
   one_source (run_ops ops p)"
  by (induction ops arbitrary: p) (simp_all add: one_source_apply_op)

lemma toString_example: "toString 1730000000000 = ''1730000000000''"
  by (simp add: toString.simps)

text \<open>
  C10. From the initial column list, whatever sequence of add-column, remove-column,
  set-language, clear, append and delete-line operations is run, at most two columns are
  targets (not flagged original); and \<open>addColumn\<close>, called in a render that shows two
  targets, leaves the column list as it is.
\<close>

theorem targets_at_most_two:
  "length (filter (\<lambda>c. \<not> isOriginal c) (run_ops ops (initial_columns now))) \<le> 2 \<and>
   (length (filter (\<lambda>c. \<not> isOriginal c) shown) = 2 \<longrightarrow> fst (addColumn t shown p) = p)"
proof
  show "length (filter (\<lambda>c. \<not> isOriginal c) (run_ops ops (initial_columns now))) \<le> 2"
    by (rule targets_run_ops) (simp add: initial_columns_def newCol_def)
  show "length (filter (\<lambda>c. \<not> isOriginal c) shown) = 2 \<longrightarrow> fst (addColumn t shown p) = p"
    by (simp add: addColumn_def)
qed

theorem targets_at_most_two_witness:
  "length (filter (\<lambda>c. \<not> isOriginal c)
     (run_ops [AddColumn 5, AddColumn 6] (initial_columns 0))) = 2 \<and>
   fst (addColumn 7 (run_ops [AddColumn 5, AddColumn 6] (initial_columns 0))
          (run_ops [AddColumn 5, AddColumn 6] (initial_columns 0))) =
     run_ops [AddColumn 5, AddColumn 6] (initial_columns 0) \<and>
   length (filter (\<lambda>c. \<not> isOriginal c)
     (run_ops [AddColumn 5, AddColumn 6, AddColumn 7] (initial_columns 0))) \<le> 2"
proof -
  have two: "length (filter (\<lambda>c. \<not> isOriginal c)
     (run_ops [AddColumn 5, AddColumn 6] (initial_columns 0))) = 2"
    by (simp add: addColumn_def initial_columns_def newCol_def no_over_def)
  from two
    targets_at_most_two [of "[AddColumn 5, AddColumn 6, AddColumn 7]" 0
      "run_ops [AddColumn 5, AddColumn 6] (initial_columns 0)" 7
      "run_ops [AddColumn 5, AddColumn 6] (initial_columns 0)"]
  show ?thesis by blast
qed

text \<open>
  C9, as the spec states it: after any public mutation, remove-column with any id
  included, exactly one column is flagged as the source. \<open>removeColumn\<close> has no guard of
  its own: called with the id \<open>original\<close> on the initial list it leaves no source column.
\<close>

theorem remove_source_counterexample:
  "filter isOriginal (run_ops [RemoveColumn ''original''] (initial_columns 0)) = []"
  by (simp add: removeColumn_def initial_columns_def newCol_def)

text \<open>
  C9, amended: from the initial column list, after any sequence of add-column,
  remove-column, set-language, clear, append and delete-line operations in which
  remove-column is never called with the source column's id \<open>original\<close> (the page offers
  the remove button on target columns only), exactly one column is flagged as the source,
  and it is the column with id \<open>original\<close>.
\<close>

theorem source_column_kept:
  "\<forall>op\<in>set ops. op \<noteq> RemoveColumn ''original'' \<Longrightarrow>
   map col_id (filter isOriginal (run_ops ops (initial_columns now))) = [''original'']"
proof -
  assume a: "\<forall>op\<in>set ops. op \<noteq> RemoveColumn ''original''"
  have "one_source (initial_columns now)"
    by (simp add: one_source_def initial_columns_def newCol_def)
  from one_source_run_ops [OF this a] show ?thesis by (simp add: one_source_def)
qed

theorem source_column_kept_witness:
  "map col_id (filter isOriginal
      (run_ops [AddColumn 7, AppendOriginal (JStr ''hi''), RemoveColumn ''7'', ClearOutputs]
         (initial_columns 0))) = [''original'']"
  using source_column_kept
    [of "[AddColumn 7, AppendOriginal (JStr ''hi''), RemoveColumn ''7'', ClearOutputs]" 0]
  by simp

text \<open>
  C8, as the spec states it: setting a column's language also empties that column's
  lines, for the source column as for a target. The page changes the source column's
  language through \<open>changeSrcLang\<close>, which keeps the lines.
\<close>

theorem changeSrcLang_keeps_lines_counterexample:
  "map lines (columns (changeSrcLang ''fr''
      (onmessage ''auto'' (initial_columns 0) (transcript_msg ''hello'') (initial_page 0))))
   = [[JStr ''hello'']]"
  by (simp add: changeSrcLang_def changeSrcLang_columns_def stopLive_def onmessage_def
      extract_raw_def transcript_msg_def initial_page_def initial_columns_def newCol_def
      appendOriginal_def)

text \<open>
  C8, amended: \<open>changeLang\<close> (the set-language operation of a target column) sets the
  language of every column carrying the given id to the new tag and empties its lines,
  keeping its id, label and flag, and leaves every other column unchanged.
  \<open>changeSrcLang\<close> (the set-language operation of the source column) sets the language of
  the flagged column to the new tag and keeps its lines, id, label and flag, and leaves
  every other column unchanged.
\<close>

theorem set_language_columns:
  "length (changeLang cid tag p) = length p \<and>
   (\<forall>i<length p.
      (col_id (p ! i) = cid \<longrightarrow>
         lang (changeLang cid tag p ! i) = tag \<and> lines (changeLang cid tag p ! i) = [] \<and>
         col_id (changeLang cid tag p ! i) = cid \<and>
         label (changeLang cid tag p ! i) = label (p ! i) \<and>
         isOriginal (changeLang cid tag p ! i) = isOriginal (p ! i)) \<and>
      (col_id (p ! i) \<noteq> cid \<longrightarrow> changeLang cid tag p ! i = p ! i)) \<and>
   length (columns (changeSrcLang tag st)) = length (columns st) \<and>
   (\<forall>i<length (columns st).
      (isOriginal (columns st ! i) \<longrightarrow>
         lang (columns (changeSrcLang tag st) ! i) = tag \<and>
         lines (columns (changeSrcLang tag st) ! i) = lines (columns st ! i) \<and>
         col_id (columns (changeSrcLang tag st) ! i) = col_id (columns st ! i) \<and>
         label (columns (changeSrcLang tag st) ! i) = label (columns st ! i) \<and>
         isOriginal (columns (changeSrcLang tag st) ! i)) \<and>
      (\<not> isOriginal (columns st ! i) \<longrightarrow>
         columns (changeSrcLang tag st) ! i = columns st ! i))"
proof -
  have cols: "columns (changeSrcLang tag st) = changeSrcLang_columns tag (columns st)"
    by (simp add: changeSrcLang_def stopLive_def closeSocket_def Let_def
          split: option.splits)
  show ?thesis
    unfolding cols by (simp add: changeLang_def changeSrcLang_columns_def)
qed

theorem set_language_columns_witness:
  "map lang (changeLang ''1730000000000'' ''fr'' (columns two_columns)) = [''auto'', ''fr''] \<and>
   map lines (changeLang ''1730000000000'' ''fr'' (columns two_columns)) = [[], []] \<and>
   changeLang ''1730000000000'' ''fr'' (columns two_columns) ! 0 = columns two_columns ! 0 \<and>
   map lang (columns (changeSrcLang ''fr'' two_columns)) = [''fr'', ''en''] \<and>
   columns (changeSrcLang ''fr'' two_columns) ! 1 = columns two_columns ! 1"
proof -
  have cols: "columns two_columns =
      [\<lparr>col_id = ''original'', label = ''Original'', lang = ''auto'', lines = [],
         isOriginal = True\<rparr>,
       \<lparr>col_id = ''1730000000000'', label = ''Transcript'', lang = ''en'', lines = [],
         isOriginal = False\<rparr>]"
    by (simp add: two_columns_def initial_page_def initial_columns_def addColumn_def
        newCol_def no_over_def toString_example)
  have live: "\<not> isLive two_columns"
    by (simp add: two_columns_def initial_page_def)
  show ?thesis
    using set_language_columns [of "''1730000000000''" "''fr''" "columns two_columns"
        two_columns]
    by (simp add: cols live changeLang_def changeSrcLang_def changeSrcLang_columns_def
        stopLive_def)
qed

section \<open>Translation and fan-out\<close>

lemma translateText_resolves: "\<exists>v. translateText text src tgt out = Inr v"
  by (simp add: translateText_def split: sum.splits)

lemma appendTranslated_absent:
  "cid \<notin> col_id ` set p \<Longrightarrow> appendTranslated cid v p = p"
  by (induction p) (auto simp: appendTranslated_def)

lemma length_appendTranslated [simp]: "length (appendTranslated cid v p) = length p"
  by (simp add: appendTranslated_def)

lemma nth_appendTranslated:
  "i < length p \<Longrightarrow>
   appendTranslated cid v p ! i =
     (if col_id (p ! i) = cid then (p ! i)\<lparr>lines := lines (p ! i) @ [v]\<rparr> else p ! i)"
  by (simp add: appendTranslated_def)

lemma columns_settle:
  "columns (settle t out st) =
   appendTranslated (col_id (pcol t))
     (projr (translateText (praw t) (psrc t) (lang (pcol t)) out)) (columns st)"
  using translateText_resolves [of "praw t" "psrc t" "lang (pcol t)" out]
  by (auto simp: settle_def)

lemma settle_all_lines:
  "i < length (columns st) \<Longrightarrow>
   length (columns (settle_all es st)) = length (columns st) \<and>
   col_id (columns (settle_all es st) ! i) = col_id (columns st ! i) \<and>
   lines (columns (settle_all es st) ! i) =
     lines (columns st ! i) @
     map (\<lambda>(t, out). projr (translateText (praw t) (psrc t) (lang (pcol t)) out))
       (filter (\<lambda>(t, out). col_id (pcol t) = col_id (columns st ! i)) es)"
proof (induction es arbitrary: st)
  case Nil
  then show ?case by simp
next
  case (Cons e es)
  obtain t out where e: "e = (t, out)" by (cases e)
  let ?st = "settle t out st"
  have len: "length (columns ?st) = length (columns st)"
    by (simp add: columns_settle)
  with Cons.prems have i: "i < length (columns ?st)" by simp
  have cid: "col_id (columns ?st ! i) = col_id (columns st ! i)"
    using Cons.prems by (simp add: columns_settle nth_appendTranslated)
  have ln: "lines (columns ?st ! i) =
      lines (columns st ! i) @
      (if col_id (pcol t) = col_id (columns st ! i)
       then [projr (translateText (praw t) (psrc t) (lang (pcol t)) out)] else [])"
    using Cons.prems by (auto simp: columns_settle nth_appendTranslated)
  from Cons.IH [OF i] len cid ln show ?case
    by (simp add: e)
qed

lemma three_fragments_columns:
  "columns three_fragments =
     [\<lparr>col_id = ''original'', label = ''Original'', lang = ''auto'',
        lines = [JStr ''a'', JStr ''b'', JStr ''c''], isOriginal = True\<rparr>,
      \<lparr>col_id = ''1730000000000'', label = ''Transcript'', lang = ''en'', lines = [],
        isOriginal = False\<rparr>]"
  by (simp add: three_fragments_def two_columns_def onmessage_def extract_raw_def
      transcript_msg_def initial_page_def initial_columns_def addColumn_def newCol_def
      no_over_def appendOriginal_def Let_def toString_example)

lemma three_fragments_requests:
  "requests three_fragments =
     map (\<lambda>s. \<lparr>pcol = \<lparr>col_id = ''1730000000000'', label = ''Transcript'', lang = ''en'',
                  lines = [], isOriginal = False\<rparr>,
               praw = JStr s, psrc = ''auto''\<rparr>) [''a'', ''b'', ''c'']"
  by (simp add: three_fragments_def two_columns_def onmessage_def extract_raw_def
      transcript_msg_def initial_page_def initial_columns_def addColumn_def newCol_def
      no_over_def appendOriginal_def Let_def toString_example)

text \<open>
  C1, as the spec states it: the translated line of fragment \<open>i\<close> is appended to a target
  column before that of fragment \<open>j > i\<close>, whatever order the translation calls settle in.
  Three fragments \<open>a\<close>, \<open>b\<close>, \<open>c\<close> arrive with one target column; their calls settle in
  the order 2, 0, 1 with the translations \<open>C\<close>, \<open>A\<close>, \<open>B\<close>. The source column reads
  \<open>a, b, c\<close> and the target column \<open>C, A, B\<close>, not \<open>A, B, C\<close>.
\<close>

theorem settle_order_counterexample:
  "map lines (columns (settle_all
      [(requests three_fragments ! 2, translated_reply ''C''),
       (requests three_fragments ! 0, translated_reply ''A''),
       (requests three_fragments ! 1, translated_reply ''B'')] three_fragments))
   = [[JStr ''a'', JStr ''b'', JStr ''c''], [JStr ''C'', JStr ''A'', JStr ''B'']] \<and>
   lines (columns (settle_all
      [(requests three_fragments ! 2, translated_reply ''C''),
       (requests three_fragments ! 0, translated_reply ''A''),
       (requests three_fragments ! 1, translated_reply ''B'')] three_fragments) ! 1)
   \<noteq> [JStr ''A'', JStr ''B'', JStr ''C'']"
  by (simp add: three_fragments_columns three_fragments_requests settle_def translateText_def
      translate_try_def translated_reply_def appendTranslated_def)

text \<open>
  C1, amended: each translated line is appended at the end of its column at the moment
  its translation call settles, so a column's translated lines stand in the order in which
  the calls settled, not in the order of their fragments: after the calls \<open>es\<close> have
  settled in that order, the lines of the column at position \<open>i\<close> are its lines before,
  followed by the results of those calls of \<open>es\<close> that were issued for its id, in the
  order of \<open>es\<close>. The number of columns and their ids do not change. (For fragments 0, 1, 2
  settling in the order 2, 0, 1 the column reads translation(2), translation(0),
  translation(1).)
\<close>

theorem lines_in_settle_order:
  "i < length (columns st) \<Longrightarrow>
   length (columns (settle_all es st)) = length (columns st) \<and>
   col_id (columns (settle_all es st) ! i) = col_id (columns st ! i) \<and>
   lines (columns (settle_all es st) ! i) =
     lines (columns st ! i) @
     map (\<lambda>(t, out). projr (translateText (praw t) (psrc t) (lang (pcol t)) out))
       (filter (\<lambda>(t, out). col_id (pcol t) = col_id (columns st ! i)) es)"
  by (rule settle_all_lines)

theorem lines_in_settle_order_witness:
  "lines (columns (settle_all
      [(requests three_fragments ! 2, translated_reply ''C''),
       (requests three_fragments ! 0, translated_reply ''A''),
       (requests three_fragments ! 1, translated_reply ''B'')] three_fragments) ! 1)
   = [JStr ''C'', JStr ''A'', JStr ''B'']"
  using lines_in_settle_order [of 1 three_fragments
      "[(requests three_fragments ! 2, translated_reply ''C''),
        (requests three_fragments ! 0, translated_reply ''A''),
        (requests three_fragments ! 1, translated_reply ''B'')]"]
  by (simp add: three_fragments_columns three_fragments_requests translateText_def
      translate_try_def translated_reply_def)

text \<open>
  C2. After \<open>removeColumn\<close> no column carries the removed id; when a translation call
  settles for a column id that no column of the list carries, the page is left exactly as
  it was: no column changes and nothing is raised. So a call that settles after its
  column has been removed changes nothing.
\<close>

theorem settle_removed_column_noop:
  "cid \<notin> col_id ` set (removeColumn cid p) \<and>
   (col_id (pcol t) \<notin> col_id ` set (columns st) \<longrightarrow> settle t out st = st) \<and>
   settle t out (st\<lparr>columns := removeColumn (col_id (pcol t)) (columns st)\<rparr>) =
     st\<lparr>columns := removeColumn (col_id (pcol t)) (columns st)\<rparr>"
proof -
  have gone: "\<And>c q. c \<notin> col_id ` set (removeColumn c q)"
    by (auto simp: removeColumn_def)
  have absent: "\<And>s. col_id (pcol t) \<notin> col_id ` set (columns s) \<longrightarrow> settle t out s = s"
    using translateText_resolves [of "praw t" "psrc t" "lang (pcol t)" out]
    by (auto simp: settle_def appendTranslated_absent)
  have "settle t out (st\<lparr>columns := removeColumn (col_id (pcol t)) (columns st)\<rparr>) =
     st\<lparr>columns := removeColumn (col_id (pcol t)) (columns st)\<rparr>"
    using absent [of "st\<lparr>columns := removeColumn (col_id (pcol t)) (columns st)\<rparr>"]
      gone [of "col_id (pcol t)" "columns st"]
    by simp
  with gone [of cid p] absent [of st] show ?thesis by blast
qed

theorem settle_removed_column_noop_witness:
  "settle (requests three_fragments ! 0) (translated_reply ''A'')
     (three_fragments\<lparr>columns := removeColumn ''1730000000000'' (columns three_fragments)\<rparr>)
   = three_fragments\<lparr>columns := removeColumn ''1730000000000'' (columns three_fragments)\<rparr> \<and>
   map col_id (removeColumn ''1730000000000'' (columns three_fragments)) = [''original'']"
  using settle_removed_column_noop [of "''1730000000000''" "columns three_fragments"
      "requests three_fragments ! 0"
      "three_fragments\<lparr>columns := removeColumn ''1730000000000'' (columns three_fragments)\<rparr>"
      "translated_reply ''A''"]
  by (simp add: three_fragments_columns three_fragments_requests removeColumn_def)

text \<open>
  C3, as the spec states it: the first non-empty text field among \<open>translated_text\<close> and
  \<open>text\<close> is returned, and the fragment text when there is none. \<open>translateText\<close> tests
  the fields with \<open>||\<close>, for truthiness and not for being a non-empty text: for the
  response \<open>{translated_text: 7}\<close> it resolves to the number 7, not to the fragment text,
  and for \<open>{translated_text: [], text: "salut"}\<close> to the empty array, not to \<open>salut\<close>.
\<close>

theorem translateText_truthy_counterexample:
  "translateText (JStr ''hi'') ''en'' ''fr''
     (Response True (Some (JObj [(''translated_text'', JNum 7)]))) = Inr (JNum 7) \<and>
   translateText (JStr ''hi'') ''en'' ''fr''
     (Response True (Some (JObj [(''translated_text'', JArr []), (''text'', JStr ''salut'')])))
     = Inr (JArr [])"
  by (simp add: translateText_def translate_try_def)

text \<open>
  C3, amended: \<open>translateText\<close> always resolves, never rejects. It resolves to the
  fragment text it was given when the fetch rejects, when the response is not ok, when the
  body is not JSON, when the body is \<open>null\<close>, and when neither \<open>translated_text\<close> nor
  \<open>text\<close> is truthy; the line appended when the call settles is then the fragment text.
  Otherwise it resolves to \<open>translated_text\<close> if that is truthy, else to \<open>text\<close>. For a
  field that is a string, truthy is non-empty; a truthy field that is not a string (a
  non-zero number, \<open>true\<close>, an array, an object) is returned as it is.
\<close>

theorem translateText_fallback:
  "(\<exists>v. translateText text src tgt out = Inr v) \<and>
   translateText text src tgt FetchRejected = Inr text \<and>
   translateText text src tgt (Response False body) = Inr text \<and>
   translateText text src tgt (Response True None) = Inr text \<and>
   (get_prop d ''translated_text'' = Inl e \<longrightarrow>
      translateText text src tgt (Response True (Some d)) = Inr text) \<and>
   (get_prop d ''translated_text'' = Inr a \<and> truthy a \<longrightarrow>
      translateText text src tgt (Response True (Some d)) = Inr a) \<and>
   (get_prop d ''translated_text'' = Inr a \<and> \<not> truthy a \<and>
    get_prop d ''text'' = Inr b \<and> truthy b \<longrightarrow>
      translateText text src tgt (Response True (Some d)) = Inr b) \<and>
   (get_prop d ''translated_text'' = Inr a \<and> \<not> truthy a \<and>
    get_prop d ''text'' = Inr b \<and> \<not> truthy b \<longrightarrow>
      translateText text src tgt (Response True (Some d)) = Inr text) \<and>
   (translateText (praw t) (psrc t) (lang (pcol t)) out = Inr (praw t) \<longrightarrow>
      columns (settle t out st) = appendTranslated (col_id (pcol t)) (praw t) (columns st)) \<and>
   (truthy (JStr s) \<longleftrightarrow> s \<noteq> [])"
proof -
  have 8: "truthy (JStr s) \<longleftrightarrow> s \<noteq> []"
    by simp
  have 1: "\<exists>v. translateText text src tgt out = Inr v"
    by (rule translateText_resolves)
  have 2: "translateText (praw t) (psrc t) (lang (pcol t)) out = Inr (praw t) \<longrightarrow>
      columns (settle t out st) = appendTranslated (col_id (pcol t)) (praw t) (columns st)"
    by (simp add: columns_settle)
  have 3: "get_prop d ''translated_text'' = Inl e \<longrightarrow>
      translateText text src tgt (Response True (Some d)) = Inr text"
    by (simp add: translateText_def translate_try_def)
  have 4: "get_prop d ''translated_text'' = Inr a \<and> truthy a \<longrightarrow>
      translateText text src tgt (Response True (Some d)) = Inr a"
    by (simp add: translateText_def translate_try_def)
  have 5: "get_prop d ''translated_text'' = Inr a \<and> \<not> truthy a \<and>
    get_prop d ''text'' = Inr b \<and> truthy b \<longrightarrow>
      translateText text src tgt (Response True (Some d)) = Inr b"
    by (simp add: translateText_def translate_try_def)
  have 6: "get_prop d ''translated_text'' = Inr a \<and> \<not> truthy a \<and>
    get_prop d ''text'' = Inr b \<and> \<not> truthy b \<longrightarrow>
      translateText text src tgt (Response True (Some d)) = Inr text"
    by (simp add: translateText_def translate_try_def)
  have 7: "translateText text src tgt FetchRejected = Inr text"
     "translateText text src tgt (Response False body) = Inr text"
     "translateText text src tgt (Response True None) = Inr text"
    by (simp_all add: translateText_def translate_try_def)
  from 1 2 3 4 5 6 7 8 show ?thesis by blast
qed

theorem translateText_fallback_witness:
  "translateText (JStr ''hi'') ''en'' ''fr''
     (Response True (Some (JObj [(''translated_text'', JStr []), (''text'', JStr ''salut'')])))
     = Inr (JStr ''salut'') \<and>
   translateText (JStr ''hi'') ''en'' ''fr''
     (Response True (Some (JObj [(''translated_text'', JStr ''bonjour''),
        (''text'', JStr ''salut'')]))) = Inr (JStr ''bonjour'') \<and>
   translateText (JStr ''hi'') ''en'' ''fr'' (Response True (Some (JObj []))) = Inr (JStr ''hi'') \<and>
   translateText (JStr ''hi'') ''en'' ''fr'' (Response True (Some JNull)) = Inr (JStr ''hi'') \<and>
   map lines (columns (settle (requests three_fragments ! 0) FetchRejected three_fragments))
     = [[JStr ''a'', JStr ''b'', JStr ''c''], [JStr ''a'']]"
  using
    translateText_fallback [of "JStr ''hi''" "''en''" "''fr''" FetchRejected None
      "JObj [(''translated_text'', JStr []), (''text'', JStr ''salut'')]" TypeError
      "JStr []" "JStr ''salut''" "requests three_fragments ! 0" three_fragments]
    translateText_fallback [of "JStr ''hi''" "''en''" "''fr''" FetchRejected None
      "JObj [(''translated_text'', JStr ''bonjour''), (''text'', JStr ''salut'')]" TypeError
      "JStr ''bonjour''" "JStr ''salut''" "requests three_fragments ! 0" three_fragments]
    translateText_fallback [of "JStr ''hi''" "''en''" "''fr''" FetchRejected None
      "JObj []" TypeError JUndefined JUndefined "requests three_fragments ! 0"
      three_fragments]
    translateText_fallback [of "JStr ''hi''" "''en''" "''fr''" FetchRejected None
      JNull TypeError JUndefined JUndefined "requests three_fragments ! 0" three_fragments]
  by (simp add: three_fragments_columns three_fragments_requests appendTranslated_def
      translateText_def translate_try_def)

text \<open>
  C5, as the spec states it: a message whose transcript is neither a non-empty string nor
  an object with a non-empty text field changes no column, numbers and booleans included.
  The handler tests the extracted value for truthiness only: the transcript \<open>5\<close> is
  appended to the source column.
\<close>

theorem onmessage_number_counterexample:
  "map lines (columns (onmessage ''auto'' (initial_columns 0)
      (Some (JObj [(''transcript'', JNum 5)])) (initial_page 0))) = [[JNum 5]] \<and>
   map lines (columns (initial_page 0)) = [[]]"
  by (simp add: onmessage_def extract_raw_def initial_page_def initial_columns_def newCol_def
      appendOriginal_def)

text \<open>
  C5, amended: the handler takes as the fragment the transcript field itself, or its
  \<open>text\<close> field when the transcript is an object, and ignores the message when that value
  is falsy. So a message that does not parse or is \<open>null\<close> only logs the error, and a
  message object whose transcript is missing, \<open>null\<close>, the empty string, \<open>0\<close>, \<open>false\<close>,
  an array, or an object without a truthy \<open>text\<close> leaves the whole page as it was: no
  column changes, no translation is requested, the socket and the capture stay as they
  are. (A transcript that is a non-zero number or \<open>true\<close> is truthy and is not ignored.)
\<close>

theorem onmessage_ignores_falsy:
  "(extract_raw parsed = Inl e \<longrightarrow>
      onmessage srcLang colsRef parsed st = st\<lparr>effects := effects st @ [ConsoleError e]\<rparr>) \<and>
   (extract_raw parsed = Inr raw \<and> \<not> truthy raw \<longrightarrow>
      onmessage srcLang colsRef parsed st = st) \<and>
   onmessage srcLang colsRef None st = st\<lparr>effects := effects st @ [ConsoleError SyntaxError]\<rparr> \<and>
   onmessage srcLang colsRef (Some JNull) st =
      st\<lparr>effects := effects st @ [ConsoleError TypeError]\<rparr> \<and>
   (map_of kvs ''transcript'' \<in> {None, Some JNull, Some (JStr []), Some (JNum 0),
        Some (JBool False), Some (JArr xs)} \<or>
    (\<exists>tkvs. map_of kvs ''transcript'' = Some (JObj tkvs) \<and>
       (\<forall>v. map_of tkvs ''text'' = Some v \<longrightarrow> \<not> truthy v)) \<longrightarrow>
      onmessage srcLang colsRef (Some (JObj kvs)) st = st)"
proof -
  have 1: "extract_raw parsed = Inl e \<longrightarrow>
      onmessage srcLang colsRef parsed st = st\<lparr>effects := effects st @ [ConsoleError e]\<rparr>"
    by (simp add: onmessage_def)
  have 2: "extract_raw parsed = Inr raw \<and> \<not> truthy raw \<longrightarrow>
      onmessage srcLang colsRef parsed st = st"
    by (simp add: onmessage_def)
  have 3: "onmessage srcLang colsRef None st =
      st\<lparr>effects := effects st @ [ConsoleError SyntaxError]\<rparr>"
    by (simp add: onmessage_def extract_raw_def)
  have 4: "onmessage srcLang colsRef (Some JNull) st =
      st\<lparr>effects := effects st @ [ConsoleError TypeError]\<rparr>"
    by (simp add: onmessage_def extract_raw_def)
  have 5: "map_of kvs ''transcript'' \<in> {None, Some JNull, Some (JStr []), Some (JNum 0),
        Some (JBool False), Some (JArr xs)} \<longrightarrow>
      onmessage srcLang colsRef (Some (JObj kvs)) st = st"
    by (auto simp: onmessage_def extract_raw_def)
  have 6: "(\<exists>tkvs. map_of kvs ''transcript'' = Some (JObj tkvs) \<and>
       (\<forall>v. map_of tkvs ''text'' = Some v \<longrightarrow> \<not> truthy v)) \<longrightarrow>
      onmessage srcLang colsRef (Some (JObj kvs)) st = st"
    by (auto simp: onmessage_def extract_raw_def split: option.splits)
  from 1 2 3 4 5 6 show ?thesis by blast
qed

theorem onmessage_ignores_falsy_witness:
  "onmessage ''en'' (initial_columns 0) (Some (JObj [(''transcript'', JStr [])]))
     (initial_page 0) = initial_page 0 \<and>
   onmessage ''en'' (initial_columns 0) (Some (JObj [(''other'', JStr ''x'')]))
     (initial_page 0) = initial_page 0 \<and>
   onmessage ''en'' (initial_columns 0)
     (Some (JObj [(''transcript'', JObj [(''text'', JStr [])])])) (initial_page 0) =
     initial_page 0 \<and>
   onmessage ''en'' (initial_columns 0) (Some (JObj [(''transcript'', JArr [JStr ''x''])]))
     (initial_page 0) = initial_page 0"
  using onmessage_ignores_falsy [of "Some (JObj [(''transcript'', JStr [])])" TypeError
      "''en''" "initial_columns 0" "initial_page 0" "JStr []" "[(''transcript'', JStr [])]"
      "[]"]
    onmessage_ignores_falsy [of None TypeError
      "''en''" "initial_columns 0" "initial_page 0" "JStr []" "[(''other'', JStr ''x'')]"
      "[]"]
    onmessage_ignores_falsy [of None TypeError
      "''en''" "initial_columns 0" "initial_page 0" "JStr []"
      "[(''transcript'', JObj [(''text'', JStr [])])]" "[]"]
    onmessage_ignores_falsy [of None TypeError
      "''en''" "initial_columns 0" "initial_page 0" "JStr []"
      "[(''transcript'', JArr [JStr ''x''])]" "[JStr ''x'']"]
  by (simp add: extract_raw_def)

section \<open>Capture pipeline\<close>

lemma sent_frames_append [simp]:
  "sent_frames (es @ fs) = sent_frames es @ sent_frames fs"
  by (induction es rule: sent_frames.induct) simp_all

lemma sent_frames_map_send [simp]:
  "sent_frames (map (\<lambda>j. WsSend k (f j)) js) = map f js"
  by (induction js) simp_all

lemma send_if_ready_ready:
  "wsRef st = Some k \<Longrightarrow> readyState st k = 1 \<Longrightarrow>
   send_if_ready frame st = st\<lparr>effects := effects st @ [WsSend k frame]\<rparr>"
  by (simp add: send_if_ready_def)

lemma send_if_ready_not_ready:
  "wsRef st = None \<or> (\<exists>k. wsRef st = Some k \<and> readyState st k \<noteq> 1) \<Longrightarrow>
   send_if_ready frame st = st"
  by (auto simp: send_if_ready_def)

lemma chunk_count_step:
  "320 * a < n \<Longrightarrow> a < (n + 319) div 320"
  "\<not> 320 * a < n \<Longrightarrow> (n + 319) div 320 \<le> a"
  for a n :: nat
  by arith+

text \<open>The loop, entered at the offset \<open>320 * a\<close> with the socket open, sends the slices
  at the offsets \<open>320 * a\<close>, \<open>320 * (a + 1)\<close>, ... below the length, in that order.\<close>

lemma audio_loop_frames:
  "wsRef st = Some k \<Longrightarrow> readyState st k = 1 \<Longrightarrow>
   audio_loop (320 * a) pcm st =
     st\<lparr>effects := effects st @
        map (\<lambda>j. WsSend k (take 320 (drop (320 * j) pcm))) [a..<(length pcm + 319) div 320]\<rparr>"
proof (induction "320 * a" pcm st arbitrary: a rule: audio_loop.induct)
  case (1 pcm st)
  show ?case
  proof (cases "320 * a < length pcm")
    case True
    let ?st = "send_if_ready (slice pcm (320 * a) (320 * a + 320)) st"
    have st: "?st = st\<lparr>effects := effects st @ [WsSend k (take 320 (drop (320 * a) pcm))]\<rparr>"
      using 1 by (simp add: send_if_ready_ready slice_def)
    have "audio_loop (320 * Suc a) pcm ?st =
       ?st\<lparr>effects := effects ?st @
        map (\<lambda>j. WsSend k (take 320 (drop (320 * j) pcm))) [Suc a..<(length pcm + 319) div 320]\<rparr>"
      using 1 True by (intro "1.hyps") (simp_all add: st)
    moreover have "320 * Suc a = 320 * a + 320" by simp
    ultimately have "audio_loop (320 * a + 320) pcm ?st =
       ?st\<lparr>effects := effects ?st @
        map (\<lambda>j. WsSend k (take 320 (drop (320 * j) pcm))) [Suc a..<(length pcm + 319) div 320]\<rparr>"
      by (simp only:)
    moreover have "[a..<(length pcm + 319) div 320] = a # [Suc a..<(length pcm + 319) div 320]"
      using chunk_count_step(1) [OF True] by (simp add: upt_conv_Cons)
    ultimately show ?thesis
      using True by (subst audio_loop.simps) (simp add: st)
  next
    case False
    then show ?thesis
      using chunk_count_step(2) [OF False] by (subst audio_loop.simps) simp
  qed
qed

lemma audio_loop_not_ready:
  "wsRef st = None \<or> (\<exists>k. wsRef st = Some k \<and> readyState st k \<noteq> 1) \<Longrightarrow>
   audio_loop i pcm st = st"
proof (induction i pcm st rule: audio_loop.induct)
  case (1 i pcm st)
  show ?case
  proof (cases "i < length pcm")
    case True
    have "send_if_ready (slice pcm i (i + 320)) st = st"
      using "1.prems" by (rule send_if_ready_not_ready)
    with 1 True show ?thesis by (subst audio_loop.simps) simp
  next
    case False
    then show ?thesis by (subst audio_loop.simps) simp
  qed
qed

lemma frame_length:
  "j < (n + 319) div 320 \<Longrightarrow>
   min 320 (n - 320 * j) = (if 320 * Suc j \<le> n then 320 else n mod 320)"
  for j n :: nat
proof (cases "320 * Suc j \<le> n")
  case True
  then show ?thesis by simp
next
  case False
  assume "j < (n + 319) div 320"
  then have lo: "320 * j < n" by arith
  from False have hi: "n < 320 * j + 320" by simp
  from lo hi have "n div 320 = j" by arith
  then have "n mod 320 = n - 320 * j"
    by (metis minus_mult_div_eq_mod)
  with False hi show ?thesis by simp
qed

lemma concat_chunks:
  "concat (map (\<lambda>j. take 320 (drop (320 * j) xs)) [a..<a + m]) =
   take (320 * m) (drop (320 * a) xs)"
proof (induction m arbitrary: a)
  case 0
  then show ?case by simp
next
  case (Suc m)
  have "[a..<a + Suc m] = a # [Suc a..<Suc a + m]"
    by (simp add: upt_conv_Cons)
  then have "concat (map (\<lambda>j. take 320 (drop (320 * j) xs)) [a..<a + Suc m]) =
      take 320 (drop (320 * a) xs) @ take (320 * m) (drop (320 * Suc a) xs)"
    using Suc.IH [of "Suc a"] by simp
  also have "\<dots> = take (320 + 320 * m) (drop (320 * a) xs)"
    by (simp add: take_add add.commute)
  finally show ?case by simp
qed

lemma live_page_socket:
  "wsRef live_page = Some 0" "readyState live_page 0 = 1"
  "effects live_page = [WsNew 0 ''auto'', MicAcquired 0]"
  by (simp_all add: live_page_def ws_onopen_def startLive_def startLive_resume_def
      startLive_begin_def attachMic_def openSocket_def closeSocket_def initial_page_def
      initial_columns_def newCol_def mapLangForServer_def Let_def)

text \<open>
  C4, as the spec states it: every frame forwarded to the socket is exactly 320 bytes,
  whatever the length of the byte buffer. A block of 4096 samples at 16 kHz encodes to
  8192 bytes, which is 25 times 320 plus 192: on a live page with the socket open, the
  last of the 26 frames sent has 192 bytes.
\<close>

theorem short_last_frame_counterexample:
  "length (sent_frames (effects (onaudioprocess (replicate 8192 0) live_page))) = 26 \<and>
   length (last (sent_frames (effects (onaudioprocess (replicate 8192 0) live_page)))) = 192"
proof -
  have "audio_loop (320 * 0) (replicate 8192 0) live_page =
     live_page\<lparr>effects := effects live_page @
        map (\<lambda>j. WsSend 0 (take 320 (drop (320 * j) (replicate 8192 0))))
          [0..<(length (replicate 8192 (0 :: byte)) + 319) div 320]\<rparr>"
    by (rule audio_loop_frames) (rule live_page_socket)+
  then have "sent_frames (effects (onaudioprocess (replicate 8192 0) live_page)) =
     map (\<lambda>j. take 320 (drop (320 * j) (replicate 8192 (0 :: byte)))) [0..<26]"
    by (simp add: onaudioprocess_def live_page_socket)
  then show ?thesis
    by (simp add: last_map)
qed

text \<open>
  C4, amended: for every audio block processed while the socket is open, the byte buffer
  is sliced from offset 0 in steps of 320 and the slices are sent in increasing-offset
  order; every frame is non-empty, every frame that ends within the buffer is exactly 320
  bytes, and when the length is not a multiple of 320 the last frame holds the remaining
  \<open>length mod 320\<close> bytes; the frames put together are the buffer. While there is no socket
  or it is not open, nothing is sent and the page does not change.
\<close>

theorem frames_of_audio_block:
  "(wsRef st = Some k \<and> readyState st k = 1 \<longrightarrow>
     sent_frames (effects (onaudioprocess pcm st)) =
       sent_frames (effects st) @
       map (\<lambda>j. take 320 (drop (320 * j) pcm)) [0..<(length pcm + 319) div 320]) \<and>
   (\<forall>j<(length pcm + 319) div 320.
      length (take 320 (drop (320 * j) pcm)) =
        (if 320 * Suc j \<le> length pcm then 320 else length pcm mod 320) \<and>
      0 < length (take 320 (drop (320 * j) pcm))) \<and>
   concat (map (\<lambda>j. take 320 (drop (320 * j) pcm)) [0..<(length pcm + 319) div 320]) = pcm \<and>
   (wsRef st = None \<or> (\<exists>k. wsRef st = Some k \<and> readyState st k \<noteq> 1) \<longrightarrow>
     onaudioprocess pcm st = st)"
proof -
  have sent: "wsRef st = Some k \<and> readyState st k = 1 \<longrightarrow>
     sent_frames (effects (onaudioprocess pcm st)) =
       sent_frames (effects st) @
       map (\<lambda>j. take 320 (drop (320 * j) pcm)) [0..<(length pcm + 319) div 320]"
  proof
    assume r: "wsRef st = Some k \<and> readyState st k = 1"
    then have "audio_loop (320 * 0) pcm st =
       st\<lparr>effects := effects st @
          map (\<lambda>j. WsSend k (take 320 (drop (320 * j) pcm)))
            [0..<(length pcm + 319) div 320]\<rparr>"
      by (intro audio_loop_frames) simp_all
    then show "sent_frames (effects (onaudioprocess pcm st)) =
       sent_frames (effects st) @
       map (\<lambda>j. take 320 (drop (320 * j) pcm)) [0..<(length pcm + 319) div 320]"
      by (simp add: onaudioprocess_def)
  qed
  have len: "\<forall>j<(length pcm + 319) div 320.
      length (take 320 (drop (320 * j) pcm)) =
        (if 320 * Suc j \<le> length pcm then 320 else length pcm mod 320) \<and>
      0 < length (take 320 (drop (320 * j) pcm))"
  proof (intro allI impI)
    fix j assume j: "j < (length pcm + 319) div 320"
    then have "320 * j < length pcm" by arith
    with frame_length [OF j] show "length (take 320 (drop (320 * j) pcm)) =
        (if 320 * Suc j \<le> length pcm then 320 else length pcm mod 320) \<and>
      0 < length (take 320 (drop (320 * j) pcm))"
      by simp
  qed
  have "concat (map (\<lambda>j. take 320 (drop (320 * j) pcm)) [0..<0 + (length pcm + 319) div 320]) =
      take (320 * ((length pcm + 319) div 320)) (drop (320 * 0) pcm)"
    by (rule concat_chunks)
  moreover have "length pcm \<le> 320 * ((length pcm + 319) div 320)" by arith
  ultimately have cat: "concat (map (\<lambda>j. take 320 (drop (320 * j) pcm))
      [0..<(length pcm + 319) div 320]) = pcm"
    by simp
  have idle: "wsRef st = None \<or> (\<exists>k. wsRef st = Some k \<and> readyState st k \<noteq> 1) \<longrightarrow>
     onaudioprocess pcm st = st"
    by (simp add: onaudioprocess_def audio_loop_not_ready)
  from sent len cat idle show ?thesis by blast
qed

theorem frames_of_audio_block_witness:
  "map length (sent_frames (effects (onaudioprocess (replicate 700 1) live_page))) =
     [320, 320, 60] \<and>
   onaudioprocess (replicate 700 1) (initial_page 0) = initial_page 0"
proof -
  have none: "wsRef (initial_page 0) = None"
    by (simp add: initial_page_def)
  from frames_of_audio_block [of live_page 0 "replicate 700 1"]
  have "sent_frames (effects (onaudioprocess (replicate 700 1) live_page)) =
       sent_frames (effects live_page) @
       map (\<lambda>j. take 320 (drop (320 * j) (replicate 700 (1 :: byte))))
         [0..<(length (replicate 700 (1 :: byte)) + 319) div 320]"
    by (simp add: live_page_socket)
  then have a: "map length (sent_frames (effects (onaudioprocess (replicate 700 1) live_page)))
      = [320, 320, 60]"
    by (simp add: live_page_socket upt_conv_Cons)
  from frames_of_audio_block [of "initial_page 0" 0 "replicate 700 1"] none
  have b: "onaudioprocess (replicate 700 1) (initial_page 0) = initial_page 0"
    by simp
  from a b show ?thesis by simp
qed

section \<open>Start and stop\<close>

lemma stopLive_fields:
  "isLive (stopLive True st) = False"
  "wsRef (stopLive True st) = None"
  "wsConnected (stopLive True st) = False"
  "streamRef (stopLive True st) = None"
  by (simp_all add: stopLive_def closeSocket_def Let_def split: option.splits)

lemma stopLive_stopped:
  "\<not> isLive st \<Longrightarrow> wsRef st = None \<Longrightarrow> \<not> wsConnected st \<Longrightarrow> streamRef st = None \<Longrightarrow>
   stopLive live st = st"
  by (simp add: stopLive_def closeSocket_def Let_def)

lemma stopLive_twice: "stopLive live (stopLive live st) = stopLive live st"
proof (cases live)
  case True
  then have l: "live = True" by simp
  show ?thesis
    unfolding l by (rule stopLive_stopped) (simp_all add: stopLive_fields)
next
  case False
  then show ?thesis by (simp add: stopLive_def)
qed

lemma live_page_state:
  "isLive live_page" "streamRef live_page = Some 0" "nextWs live_page = 1"
  by (simp_all add: live_page_def ws_onopen_def startLive_def startLive_resume_def
      startLive_begin_def attachMic_def openSocket_def closeSocket_def initial_page_def
      Let_def)

text \<open>Stop is idempotent: a second call, from the render that follows the first stop or
  from the same render, leaves the state the first call produced, and stop on a page that
  is not live changes nothing. A \<open>startLive\<close> whose render shows the page live changes
  nothing.\<close>

lemma stop_idempotent:
  "stopLive (isLive (stopLive (isLive st) st)) (stopLive (isLive st) st) =
     stopLive (isLive st) st \<and>
   stopLive live (stopLive live st) = stopLive live st \<and>
   (\<not> isLive st \<longrightarrow> stopLive (isLive st) st = st) \<and>
   startLive True cols out st = st"
proof -
  have a: "stopLive (isLive (stopLive (isLive st) st)) (stopLive (isLive st) st)
        = stopLive (isLive st) st"
  proof (cases "isLive st")
    case True
    then show ?thesis by (simp add: stopLive_fields) (simp add: stopLive_def)
  next
    case False
    then show ?thesis by (simp add: stopLive_def)
  qed
  have b: "\<not> isLive st \<longrightarrow> stopLive (isLive st) st = st"
    by (simp add: stopLive_def)
  have c: "startLive True cols out st = st"
    by (simp add: startLive_def)
  from a b c stopLive_twice [of live st] show ?thesis by blast
qed

lemma language_changed_twice_effects:
  "effects language_changed_twice =
     [SetTimeoutStartLive 200 False (initial_columns 0),
      SetTimeoutStartLive 200 False (changeSrcLang_columns ''fr'' (initial_columns 0))]"
  by (simp add: language_changed_twice_def changeSrcLang_def stopLive_def initial_page_def)

text \<open>
  C6: calling start while the page is capturing is a no-op that opens no second
  connection. \<open>startLive\<close> has the guard \<open>if (isLive) return\<close>, but it tests the \<open>isLive\<close>
  of the render that created it, and \<open>changeSrcLang\<close> hands its render's \<open>startLive\<close> to a
  timer. After two changes of the source language on a page that is not live, both timers
  hold a \<open>startLive\<close> that read \<open>isLive = false\<close>. The first makes the page live (socket
  0, microphone 0). The second then runs on a capturing page and passes the guard: it
  closes socket 0, opens socket 1 for the language \<open>fr\<close> (the one its render showed, not
  the current \<open>ja\<close>), and attaches a second microphone over the first.
\<close>

theorem stale_start_on_live_page:
  "isLive first_timer_fired \<and>
   wsRef first_timer_fired = Some 0 \<and>
   streamRef first_timer_fired = Some 0 \<and>
   map lang (columns first_timer_fired) = [''ja''] \<and>
   effects (fire_timer (effects language_changed_twice ! 1) (MicOk 1) first_timer_fired) =
     effects first_timer_fired @ [WsClose 0, WsNew 1 ''fr'', MicAcquired 1] \<and>
   wsRef (fire_timer (effects language_changed_twice ! 1) (MicOk 1) first_timer_fired) = Some 1 \<and>
   streamRef (fire_timer (effects language_changed_twice ! 1) (MicOk 1) first_timer_fired)
     = Some 1"
proof -
  have cols: "columns language_changed_twice =
      [\<lparr>col_id = ''original'', label = ''Original'', lang = ''ja'', lines = [],
         isOriginal = True\<rparr>]"
    by (simp add: language_changed_twice_def changeSrcLang_def changeSrcLang_columns_def
        stopLive_def initial_page_def initial_columns_def newCol_def)
  have rest: "\<not> isLive language_changed_twice" "wsRef language_changed_twice = None"
    "streamRef language_changed_twice = None" "nextWs language_changed_twice = 0"
    by (simp_all add: language_changed_twice_def changeSrcLang_def stopLive_def
        initial_page_def)
  have first: "isLive first_timer_fired" "wsRef first_timer_fired = Some 0"
    "streamRef first_timer_fired = Some 0" "nextWs first_timer_fired = 1"
    "columns first_timer_fired = columns language_changed_twice"
    by (simp_all add: first_timer_fired_def language_changed_twice_effects rest
        ws_onopen_def startLive_def startLive_resume_def startLive_begin_def attachMic_def
        openSocket_def closeSocket_def Let_def)
  have second: "fire_timer (effects language_changed_twice ! 1) (MicOk 1) first_timer_fired =
      startLive_resume (MicOk 1)
        (startLive_begin (changeSrcLang_columns ''fr'' (initial_columns 0)) first_timer_fired)"
    by (simp add: language_changed_twice_effects startLive_def)
  have lang: "find isOriginal (changeSrcLang_columns ''fr'' (initial_columns 0)) =
      Some \<lparr>col_id = ''original'', label = ''Original'', lang = ''fr'', lines = [],
         isOriginal = True\<rparr>"
    by (simp add: changeSrcLang_columns_def initial_columns_def newCol_def)
  show ?thesis
    unfolding second
    by (simp add: first cols lang startLive_resume_def startLive_begin_def attachMic_def
        openSocket_def closeSocket_def mapLangForServer_def Let_def)
qed



end
